theory Spec2Isabelle
  imports Main "HOL-Library.Sublist"
begin

section \<open>Python strings\<close>

text \<open>
  A Python \<open>str\<close> is modelled as a \<open>string\<close>; each \<open>char\<close> stands for one code
  point in the range 0..255.  Code points above 255 are outside the model.
\<close>

text \<open>\<open>sub in s\<close> on strings: \<open>sub\<close> occurs as a contiguous block of \<open>s\<close>.\<close>

fun contains :: "string \<Rightarrow> string \<Rightarrow> bool" where
  "contains sub [] = (sub = [])"
| "contains sub (c # cs) = (prefix sub (c # cs) \<or> contains sub cs)"

text \<open>
  \<open>str.isspace\<close> on one character: below 256 the code points that Python counts as
  whitespace are 9..13, 28..32, 133 and 160.
\<close>

definition isspace :: "char \<Rightarrow> bool" where
  "isspace c =
     (let n = (of_char c :: nat)
      in (9 \<le> n \<and> n \<le> 13) \<or> (28 \<le> n \<and> n \<le> 32) \<or> n = 133 \<or> n = 160)"

text \<open>\<open>s.strip()\<close>: drop the whitespace at both ends.\<close>

definition strip :: "string \<Rightarrow> string" where
  "strip s = rev (dropWhile isspace (rev (dropWhile isspace s)))"

text \<open>
  \<open>s.replace(old, new)\<close>: the occurrences of \<open>old\<close> are found from the left and do
  not overlap; the text produced by a replacement is not scanned again.  With an empty
  \<open>old\<close> Python puts \<open>new\<close> before every character and at the end.
\<close>

function replace :: "string \<Rightarrow> string \<Rightarrow> string \<Rightarrow> string" where
  "replace old new [] = (if old = [] then new else [])"
| "replace old new (c # cs) =
     (if old = [] then new @ c # replace old new cs
      else if prefix old (c # cs) then new @ replace old new (drop (length old) (c # cs))
      else c # replace old new cs)"
  by pat_completeness auto
termination
  by (relation "measure (\<lambda>(old, new, s). length s)") auto

text \<open>\<open>sep.join(xs)\<close> on a list of strings.\<close>

fun join :: "string \<Rightarrow> string list \<Rightarrow> string" where
  "join sep [] = []"
| "join sep [x] = x"
| "join sep (x # y # ys) = x @ sep @ join sep (y # ys)"

text \<open>
  \<open>s.lower()\<close>: below 256 the upper-case letters are A..Z and the Latin-1 letters
  192..214 and 216..222; each is 32 below its lower-case form.
\<close>

definition lower_char :: "char \<Rightarrow> char" where
  "lower_char c =
     (let n = (of_char c :: nat)
      in if (65 \<le> n \<and> n \<le> 90) \<or> (192 \<le> n \<and> n \<le> 214) \<or> (216 \<le> n \<and> n \<le> 222)
         then char_of (n + 32) else c)"

definition lower :: "string \<Rightarrow> string" where
  "lower s = map lower_char s"

section \<open>Cleaning the SQL candidate\<close>

text \<open>
  Both variants clean the model's answer with the same expression
  (\<^verbatim>\<open>chatbot_backend.py\<close> line 112, \<^verbatim>\<open>streamlit_app.py\<close> line 67):
  \<^verbatim>\<open>response.text.strip().replace("`", "").replace("sql", "")\<close>
\<close>

definition cleanup :: "string \<Rightarrow> string" where
  "cleanup text = replace ''sql'' '''' (replace ''`'' '''' (strip text))"

text \<open>Text that carries none of the three markers the cleanup looks for.\<close>

definition marker_free :: "string \<Rightarrow> bool" where
  "marker_free s = (strip s = s \<and> \<not> contains ''`'' s \<and> \<not> contains ''sql'' s)"

section \<open>The outside world: exceptions, the model and the database\<close>

text \<open>
  The exceptions the handlers of \<^verbatim>\<open>query_database\<close> tell apart, each with the text
  \<open>str(e)\<close> gives: \<^verbatim>\<open>google_exceptions.NotFound\<close>, \<^verbatim>\<open>sqlite3.Error\<close>, and any other
  subclass of \<^verbatim>\<open>Exception\<close>.
\<close>

datatype exn = NotFound string | SqliteError string | OtherException string

fun str_exn :: "exn \<Rightarrow> string" where
  "str_exn (NotFound m) = m"
| "str_exn (SqliteError m) = m"
| "str_exn (OtherException m) = m"

text \<open>
  A value in a result row.  The code only ever turns a value into text (\<open>str\<close>, or an
  f-string): a \<open>Text\<close> is a Python string and is its own text, a \<open>NonText\<close> stands
  for a value of another type (a number, \<open>None\<close>, bytes) and carries the text \<open>str\<close>
  gives for it.
\<close>

datatype sqlval = Text string | NonText string

fun str_val :: "sqlval \<Rightarrow> string" where
  "str_val (Text s) = s"
| "str_val (NonText d) = d"

text \<open>
  What the code reads from a cursor after \<^verbatim>\<open>cursor.execute(sql)\<close>: the rows of
  \<^verbatim>\<open>fetchall()\<close>, and the column names \<^verbatim>\<open>[d[0] for d in cursor.description]\<close>, or
  \<open>None\<close> where \<^verbatim>\<open>cursor.description\<close> is \<open>None\<close> (a statement that returns no rows).
\<close>

record cursor =
  rows :: "sqlval list list"
  description :: "string list option"

text \<open>
  What a turn asks of the outside world, in order: a prompt sent to the model, the
  catalog query
  \<^verbatim>\<open>SELECT sql FROM sqlite_master WHERE type='table';\<close>
  or the execution of a SQL candidate.
\<close>

datatype event = LLMCall string | CatalogQuery | Execute string

type_synonym trace = "event list"

text \<open>
  The model and the database are outside the program.  Each answers a request by a
  result or by raising, and its answer may depend on everything requested before:
  \<^item> \<open>generate_content\<close>: \<^verbatim>\<open>model.generate_content(prompt).text\<close>;
  \<^item> \<open>table_sql\<close>: the catalog query (\<^verbatim>\<open>query_database\<close> lines 121-122), that is
    \<^verbatim>\<open>[row[0] for row in cursor.fetchall()]\<close> after executing it; SQLite stores the
    creating statement of every table as text, so the rows are taken as strings;
  \<^item> \<open>cursor_execute\<close>: \<^verbatim>\<open>cursor.execute(sql)\<close> followed by \<^verbatim>\<open>cursor.fetchall()\<close>.
  Console output (\<^verbatim>\<open>print\<close>, \<^verbatim>\<open>st.markdown\<close>, \<^verbatim>\<open>st.code\<close>) is not modelled.
\<close>

record env =
  generate_content :: "trace \<Rightarrow> string \<Rightarrow> exn + string"
  table_sql :: "trace \<Rightarrow> exn + string list"
  cursor_execute :: "trace \<Rightarrow> string \<Rightarrow> exn + cursor"

definition llm :: "env \<Rightarrow> string \<Rightarrow> trace \<Rightarrow> (exn + string) \<times> trace" where
  "llm e prompt t = (generate_content e t prompt, t @ [LLMCall prompt])"

definition fetch_schema :: "env \<Rightarrow> trace \<Rightarrow> (exn + string list) \<times> trace" where
  "fetch_schema e t = (table_sql e t, t @ [CatalogQuery])"

definition execute :: "env \<Rightarrow> string \<Rightarrow> trace \<Rightarrow> (exn + cursor) \<times> trace" where
  "execute e sql t = (cursor_execute e t sql, t @ [Execute sql])"

text \<open>The SQL candidates a trace has executed, and the prompts it has sent.\<close>

fun executions :: "trace \<Rightarrow> string list" where
  "executions [] = []"
| "executions (Execute sql # t) = sql # executions t"
| "executions (ev # t) = executions t"

fun llm_prompts :: "trace \<Rightarrow> string list" where
  "llm_prompts [] = []"
| "llm_prompts (LLMCall p # t) = p # llm_prompts t"
| "llm_prompts (ev # t) = llm_prompts t"

section \<open>The interactive variant (\<^verbatim>\<open>chatbot_backend.py\<close>)\<close>

text \<open>An entry of \<^verbatim>\<open>chat_history\<close>: \<^verbatim>\<open>{'role': ..., 'parts': [...]}\<close>.\<close>

record message =
  role :: string
  parts :: "string list"

text \<open>
  \<^verbatim>\<open>"\n".join([f"{msg['role']}: {msg['parts'][0]}" for msg in chat_history])\<close>;
  \<^verbatim>\<open>msg['parts'][0]\<close> raises IndexError on an empty list.
\<close>

definition render_message :: "message \<Rightarrow> exn + string" where
  "render_message msg =
     (case parts msg of
        [] \<Rightarrow> Inl (OtherException ''list index out of range'')
      | p # _ \<Rightarrow> Inr (role msg @ '': '' @ p))"

fun render_messages :: "message list \<Rightarrow> exn + string list" where
  "render_messages [] = Inr []"
| "render_messages (msg # msgs) =
     (case render_message msg of
        Inl e \<Rightarrow> Inl e
      | Inr l \<Rightarrow> (case render_messages msgs of Inl e \<Rightarrow> Inl e | Inr ls \<Rightarrow> Inr (l # ls)))"

definition history_str :: "message list \<Rightarrow> exn + string" where
  "history_str chat_history =
     (case render_messages chat_history of
        Inl e \<Rightarrow> Inl e
      | Inr ls \<Rightarrow> Inr (join ''\<newline>'' ls))"

subsection \<open>\<^verbatim>\<open>_get_sql_from_llm\<close>\<close>

text \<open>The f-string of lines 81-109, cut at its four slots.\<close>

definition sql_prompt_head :: string where
  \<open>sql_prompt_head =
     ''\<newline>''
     @ ''You are a Text-to-SQL expert. Your task is to convert a user's question into a valid SQLite query.\<newline>''
     @ ''You must only output the SQL query and nothing else. Do not add any explanation or markdown.\<newline>''
     @ ''If the user's question is not a question that can be answered by querying the database (e.g., "hello", "how are you"),\<newline>''
     @ ''simply respond with the word "NOT_A_QUERY".\<newline>''
     @ ''\<newline>''
     @ ''Database Schema:\<newline>''
     @ ''---\<newline>''\<close>

definition sql_prompt_rules :: string where
  \<open>sql_prompt_rules =
     ''\<newline>''
     @ ''---\<newline>''
     @ ''\<newline>''
     @ ''Important Querying Rules:\<newline>''
     @ ''- **JOINs**: Your default join MUST be a `LEFT JOIN` from `Demography` to `AdverseEvents`. Only use `INNER JOIN` when the user's question is ONLY about the events themselves (e.g., "count all headaches").\<newline>''
     @ ''- **ALIASES**: You MUST use `dm` for `Demography` and `ae` for `AdverseEvents`.\<newline>''
     @ ''- **PERCENTAGE QUERIES**: For questions about the "percentage of subjects with events", you MUST use the following query structure. This is non-negotiable.\<newline>''
     @ ''  - **Example**: `SELECT CAST(COUNT(DISTINCT ae.patient_id) AS REAL) * 100 / COUNT(DISTINCT dm.patient_id) FROM Demography dm LEFT JOIN AdverseEvents ae ON dm.patient_id = ae.patient_id`\<newline>''
     @ ''\<newline>''
     @ ''Conversation History (for context on follow-up questions):\<newline>''
     @ ''---\<newline>''\<close>

definition sql_prompt_question :: string where
  \<open>sql_prompt_question =
     ''\<newline>''
     @ ''---\<newline>''
     @ ''\<newline>''
     @ ''User Question:\<newline>''
     @ ''---\<newline>''\<close>

definition sql_prompt_tail :: string where
  \<open>sql_prompt_tail =
     ''\<newline>''
     @ ''---\<newline>''
     @ ''\<newline>''
     @ ''SQL Query:\<newline>''\<close>

definition sql_prompt :: "string \<Rightarrow> string \<Rightarrow> string \<Rightarrow> string" where
  "sql_prompt schema hs user_question =
     sql_prompt_head @ schema @ sql_prompt_rules @ hs @ sql_prompt_question
     @ user_question @ sql_prompt_tail"

definition backend_get_sql_from_llm ::
  "env \<Rightarrow> string \<Rightarrow> string \<Rightarrow> message list \<Rightarrow> trace \<Rightarrow> (exn + string) \<times> trace" where
  "backend_get_sql_from_llm e user_question schema chat_history t =
     (case history_str chat_history of
        Inl x \<Rightarrow> (Inl x, t)
      | Inr hs \<Rightarrow>
          (case llm e (sql_prompt schema hs user_question) t of
             (Inl x, t') \<Rightarrow> (Inl x, t')
           | (Inr text, t') \<Rightarrow> (Inr (cleanup text), t')))"

subsection \<open>\<^verbatim>\<open>_format_response_naturally\<close>\<close>

text \<open>The f-string of lines 57-74, cut at its three slots.\<close>

definition answer_prompt_head :: string where
  \<open>answer_prompt_head =
     ''\<newline>''
     @ ''You are a helpful chatbot assistant. Your task is to answer the user's question based on the data provided.\<newline>''
     @ ''Formulate a friendly, conversational, and natural language response. Do not just repeat the data in a table.\<newline>''
     @ ''\<newline>''
     @ ''Conversation History:\<newline>''
     @ ''---\<newline>''\<close>

definition answer_prompt_question :: string where
  \<open>answer_prompt_question =
     ''\<newline>''
     @ ''---\<newline>''
     @ ''\<newline>''
     @ ''User's Original Question: "''\<close>

definition answer_prompt_data :: string where
  \<open>answer_prompt_data =
     ''"\<newline>''
     @ ''\<newline>''
     @ ''Data from Database:\<newline>''
     @ ''---\<newline>''\<close>

definition answer_prompt_tail :: string where
  \<open>answer_prompt_tail =
     ''\<newline>''
     @ ''---\<newline>''
     @ ''\<newline>''
     @ ''Your friendly response:\<newline>''\<close>

definition answer_prompt :: "string \<Rightarrow> string \<Rightarrow> string \<Rightarrow> string" where
  "answer_prompt hs question data_string =
     answer_prompt_head @ hs @ answer_prompt_question @ question @ answer_prompt_data
     @ data_string @ answer_prompt_tail"

text \<open>
  Lines 51-53: the header line, then one line per row, each ended by a newline.
\<close>

definition backend_data_string :: "sqlval list list \<Rightarrow> string list \<Rightarrow> string" where
  "backend_data_string results column_names =
     join '', '' column_names @ ''\<newline>''
     @ concat (map (\<lambda>row. join '', '' (map str_val row) @ ''\<newline>'') results)"

text \<open>
  The fast path of lines 47-48 reads \<^verbatim>\<open>results[0][0]\<close>, which raises IndexError on a
  row without a value.
\<close>

definition backend_format_response_naturally ::
  "env \<Rightarrow> string \<Rightarrow> sqlval list list \<Rightarrow> string list \<Rightarrow> message list \<Rightarrow> trace
   \<Rightarrow> (exn + string) \<times> trace" where
  "backend_format_response_naturally e question results column_names chat_history t =
     (if length results = 1 \<and> length column_names = 1 then
        (case results ! 0 of
           [] \<Rightarrow> (Inl (OtherException ''tuple index out of range''), t)
         | v # _ \<Rightarrow> (Inr (''The answer is: '' @ str_val v), t))
      else
        (let data_string = backend_data_string results column_names
         in case history_str chat_history of
              Inl x \<Rightarrow> (Inl x, t)
            | Inr hs \<Rightarrow>
                (case llm e (answer_prompt hs question data_string) t of
                   (Inl x, t') \<Rightarrow> (Inl x, t')
                 | (Inr text, t') \<Rightarrow> (Inr (strip text), t'))))"

subsection \<open>\<^verbatim>\<open>query_database\<close>\<close>

text \<open>
  The three \<^verbatim>\<open>except\<close> clauses of lines 144-153.  \<open>sql_query\<close> is \<open>None\<close> while the
  local variable is not yet bound, that is when \<^verbatim>\<open>_get_sql_from_llm\<close> itself raised;
  the handler of \<^verbatim>\<open>sqlite3.Error\<close> reads the variable, and reading it unbound raises
  UnboundLocalError out of the handler.
\<close>

fun handle_exception :: "exn \<Rightarrow> string option \<Rightarrow> exn + string" where
  "handle_exception (NotFound m) sql_query =
     (if contains ''v1beta'' m
      then Inr (''API Error: The model was not found. This is caused by an old version of the 'google-generativeai' library. Please ensure your virtual environment is active and you have run 'pip install --upgrade google-generativeai'. Details: '' @ m)
      else Inr (''Sorry, it seems the AI model I'm trying to use is not available. Please check the model name. Details: '' @ m))"
| "handle_exception (SqliteError m) (Some sql_query) =
     Inr (''I couldn't run the query. The database returned an error: '' @ m
          @ ''\<newline>Faulty SQL was: '' @ sql_query)"
| "handle_exception (SqliteError m) None =
     Inl (OtherException ''cannot access local variable 'sql_query' where it is not associated with a value'')"
| "handle_exception (OtherException m) sql_query =
     Inr (''An unexpected error occurred: '' @ m)"

text \<open>
  Lines 120-123 fetch the schema before the \<^verbatim>\<open>try\<close>: what they raise leaves the
  function.  \<^verbatim>\<open>cursor.description\<close> is iterated at line 141; iterating \<open>None\<close> raises
  TypeError.
\<close>

definition query_database ::
  "env \<Rightarrow> string \<Rightarrow> message list \<Rightarrow> trace \<Rightarrow> (exn + string) \<times> trace" where
  "query_database e user_question chat_history t =
     (case fetch_schema e t of
        (Inl x, t1) \<Rightarrow> (Inl x, t1)
      | (Inr schema_statements, t1) \<Rightarrow>
          (case backend_get_sql_from_llm e user_question
                  (join ''\<newline>'' schema_statements) chat_history t1 of
             (Inl x, t2) \<Rightarrow> (handle_exception x None, t2)
           | (Inr sql_query, t2) \<Rightarrow>
               if contains ''NOT_A_QUERY'' sql_query then
                 (Inr ''I can only answer questions related to the clinical database. Please ask me about patients or adverse events.'', t2)
               else
                 (case execute e sql_query t2 of
                    (Inl x, t3) \<Rightarrow> (handle_exception x (Some sql_query), t3)
                  | (Inr cur, t3) \<Rightarrow>
                      if rows cur = [] then (Inr ''I found no results for your query.'', t3)
                      else
                        (case description cur of
                           None \<Rightarrow>
                             (handle_exception
                                (OtherException
                                   ([CHR 0x27] @ ''NoneType'' @ [CHR 0x27] @ '' object is not iterable''))
                                (Some sql_query), t3)
                         | Some column_names \<Rightarrow>
                             (case backend_format_response_naturally e user_question (rows cur)
                                     column_names chat_history t3 of
                                (Inl x, t4) \<Rightarrow> (handle_exception x (Some sql_query), t4)
                              | (Inr response, t4) \<Rightarrow> (Inr response, t4))))))"

subsection \<open>The chat loop (lines 192-206)\<close>

definition MAX_HISTORY_TURNS :: nat where
  "MAX_HISTORY_TURNS = 5"

text \<open>Lines 205-206: \<^verbatim>\<open>chat_history[-MAX_HISTORY_TURNS * 2:]\<close> keeps the last entries.\<close>

definition trim_history :: "message list \<Rightarrow> message list" where
  "trim_history chat_history =
     (if length chat_history > MAX_HISTORY_TURNS * 2
      then drop (length chat_history - MAX_HISTORY_TURNS * 2) chat_history
      else chat_history)"

text \<open>
  Lines 200-206, the body of the loop after the test for \<open>quit\<close>: the reply and the
  new history, or the exception that \<^verbatim>\<open>query_database\<close> let through.
\<close>

definition chat_turn ::
  "env \<Rightarrow> string \<Rightarrow> message list \<Rightarrow> trace \<Rightarrow> (exn + string \<times> message list) \<times> trace" where
  "chat_turn e user_question chat_history t =
     (case query_database e user_question chat_history t of
        (Inl x, t') \<Rightarrow> (Inl x, t')
      | (Inr response, t') \<Rightarrow>
          (Inr (response,
                trim_history (chat_history
                  @ [\<lparr>role = ''user'', parts = [user_question]\<rparr>,
                     \<lparr>role = ''model'', parts = [response]\<rparr>])),
           t'))"

text \<open>
  How a session ends: the \<^verbatim>\<open>break\<close> of line 199, or an exception nothing catches.
  The lines typed by the user are the list \<open>inputs\<close>; \<^verbatim>\<open>input()\<close> raises EOFError
  when there is no line left.
\<close>

datatype session_end = Goodbye | Uncaught exn

fun chat_loop ::
  "env \<Rightarrow> string list \<Rightarrow> message list \<Rightarrow> trace \<Rightarrow> session_end \<times> message list \<times> trace" where
  "chat_loop e [] chat_history t =
     (Uncaught (OtherException ''EOF when reading a line''), chat_history, t)"
| "chat_loop e (user_question # inputs) chat_history t =
     (if lower user_question \<in> set [''quit'', ''exit''] then (Goodbye, chat_history, t)
      else
        (case chat_turn e user_question chat_history t of
           (Inl x, t') \<Rightarrow> (Uncaught x, chat_history, t')
         | (Inr (response, chat_history'), t') \<Rightarrow> chat_loop e inputs chat_history' t'))"

text \<open>
  A history made of whole turns: a \<open>user\<close> entry, then a \<open>model\<close> entry, and so on.
\<close>

fun alternates :: "message list \<Rightarrow> bool" where
  "alternates [] = True"
| "alternates [m] = False"
| "alternates (u # m # rest) = (role u = ''user'' \<and> role m = ''model'' \<and> alternates rest)"

section \<open>The web variant (\<^verbatim>\<open>streamlit_app.py\<close>)\<close>

subsection \<open>\<^verbatim>\<open>get_sql_from_llm\<close>\<close>

text \<open>
  The f-string of lines 49-65, cut at its two slots; the lines of the literal carry the
  indentation of the function body.
\<close>

definition web_sql_prompt_head :: string where
  \<open>web_sql_prompt_head =
     ''\<newline>''
     @ ''    You are a Text-to-SQL expert. Your task is to convert a user's question into a valid SQLite query.\<newline>''
     @ ''    You must only output the SQL query and nothing else. Do not add any explanation or markdown.\<newline>''
     @ ''    If the user's question is not a question that can be answered by querying the database (e.g., "hello", "how are you"),\<newline>''
     @ ''    simply respond with the word "NOT_A_QUERY".\<newline>''
     @ ''\<newline>''
     @ ''    Database Schema:\<newline>''
     @ ''    ---\<newline>''
     @ ''    ''\<close>

definition web_sql_prompt_rules :: string where
  \<open>web_sql_prompt_rules =
     ''\<newline>''
     @ ''    ---\<newline>''
     @ ''\<newline>''
     @ ''    Important Querying Rules:\<newline>''
     @ ''    - You MUST use the table aliases `dm` for the demography table, `ae` for the adverse events table, and `vs` for the vitals table.\<newline>''
     @ ''\<newline>''
     @ ''    User Question: "''\<close>

definition web_sql_prompt_tail :: string where
  \<open>web_sql_prompt_tail =
     ''"\<newline>''
     @ ''    SQL Query:\<newline>''
     @ ''    ''\<close>

definition web_sql_prompt :: "string \<Rightarrow> string \<Rightarrow> string" where
  "web_sql_prompt schema user_question =
     web_sql_prompt_head @ schema @ web_sql_prompt_rules @ user_question
     @ web_sql_prompt_tail"

definition get_sql_from_llm ::
  "env \<Rightarrow> string \<Rightarrow> string \<Rightarrow> trace \<Rightarrow> (exn + string) \<times> trace" where
  "get_sql_from_llm e user_question schema t =
     (case llm e (web_sql_prompt schema user_question) t of
        (Inl x, t') \<Rightarrow> (Inl x, t')
      | (Inr text, t') \<Rightarrow> (Inr (cleanup text), t'))"

subsection \<open>\<^verbatim>\<open>format_response_naturally\<close>\<close>

text \<open>The f-string of lines 75-85, cut at its two slots.\<close>

definition web_answer_prompt_head :: string where
  \<open>web_answer_prompt_head =
     ''\<newline>''
     @ ''    You are a helpful chatbot assistant. Your task is to answer the user's question based on the data provided.\<newline>''
     @ ''    Formulate a friendly, conversational, and natural language response. Do not just repeat the data in a table.\<newline>''
     @ ''\<newline>''
     @ ''    User's Original Question: "''\<close>

definition web_answer_prompt_data :: string where
  \<open>web_answer_prompt_data =
     ''"\<newline>''
     @ ''    Data from Database:\<newline>''
     @ ''    ---\<newline>''
     @ ''    ''\<close>

definition web_answer_prompt_tail :: string where
  \<open>web_answer_prompt_tail =
     ''\<newline>''
     @ ''    ---\<newline>''
     @ ''    Your friendly response:\<newline>''
     @ ''    ''\<close>

definition web_answer_prompt :: "string \<Rightarrow> string \<Rightarrow> string" where
  "web_answer_prompt question data_string =
     web_answer_prompt_head @ question @ web_answer_prompt_data @ data_string
     @ web_answer_prompt_tail"

text \<open>Line 74: the header line, then the rows, joined by newlines.\<close>

definition web_data_string :: "sqlval list list \<Rightarrow> string list \<Rightarrow> string" where
  "web_data_string results column_names =
     join '', '' column_names @ ''\<newline>''
     @ join ''\<newline>'' (map (\<lambda>row. join '', '' (map str_val row)) results)"

definition format_response_naturally ::
  "env \<Rightarrow> string \<Rightarrow> sqlval list list \<Rightarrow> string list \<Rightarrow> trace \<Rightarrow> (exn + string) \<times> trace" where
  "format_response_naturally e question results column_names t =
     (if results = [] then (Inr ''I found no results for your query.'', t)
      else
        (case llm e (web_answer_prompt question (web_data_string results column_names)) t of
           (Inl x, t') \<Rightarrow> (Inl x, t')
         | (Inr text, t') \<Rightarrow> (Inr (strip text), t')))"

subsection \<open>The chat handler (lines 97-132)\<close>

text \<open>The prompt of line 116, sent when the candidate is the sentinel.\<close>

definition conversational_prompt :: "string \<Rightarrow> string" where
  "conversational_prompt prompt =
     ''You are a helpful chatbot. The user said: '' @ [CHR 0x27] @ prompt @ [CHR 0x27]
     @ ''. Respond conversationally.''"

text \<open>
  The body of the \<^verbatim>\<open>try\<close>, lines 109-123.  Opening the cursor and the catalog query
  are one request to the database.
\<close>

definition try_body :: "env \<Rightarrow> string \<Rightarrow> trace \<Rightarrow> (exn + string) \<times> trace" where
  "try_body e prompt t =
     (case fetch_schema e t of
        (Inl x, t1) \<Rightarrow> (Inl x, t1)
      | (Inr schema_statements, t1) \<Rightarrow>
          (case get_sql_from_llm e prompt (join ''\<newline>'' schema_statements) t1 of
             (Inl x, t2) \<Rightarrow> (Inl x, t2)
           | (Inr sql_query, t2) \<Rightarrow>
               if contains ''NOT_A_QUERY'' sql_query then
                 llm e (conversational_prompt prompt) t2
               else
                 (case execute e sql_query t2 of
                    (Inl x, t3) \<Rightarrow> (Inl x, t3)
                  | (Inr cur, t3) \<Rightarrow>
                      format_response_naturally e prompt (rows cur)
                        (case description cur of None \<Rightarrow> [] | Some column_names \<Rightarrow> column_names)
                        t3)))"

text \<open>Lines 108-126: the \<^verbatim>\<open>try\<close> with its handler, which catches every exception.\<close>

definition respond :: "env \<Rightarrow> string \<Rightarrow> trace \<Rightarrow> string \<times> trace" where
  "respond e prompt t =
     (case try_body e prompt t of
        (Inl x, t') \<Rightarrow> (''An error occurred: '' @ str_exn x, t')
      | (Inr response_text, t') \<Rightarrow> (response_text, t'))"

text \<open>
  The handler of a submitted prompt.  \<open>messages\<close> is \<^verbatim>\<open>st.session_state.messages\<close>,
  a list of (role, content) pairs; \<open>have_db\<close> and \<open>have_model\<close> say whether
  \<^verbatim>\<open>get_db_connection()\<close> and \<^verbatim>\<open>get_model()\<close> returned an object.  Where one of them is
  missing, line 131 reads \<^verbatim>\<open>response_text\<close>, which no branch has bound.
\<close>

definition chat_handler ::
  "env \<Rightarrow> bool \<Rightarrow> bool \<Rightarrow> string \<Rightarrow> (string \<times> string) list \<Rightarrow> trace
   \<Rightarrow> (exn + string) \<times> (string \<times> string) list \<times> trace" where
  "chat_handler e have_db have_model prompt messages t =
     (let messages1 = messages @ [(''user'', prompt)]
      in if \<not> have_db \<or> \<not> have_model then
           (Inl (OtherException (''name '' @ [CHR 0x27] @ ''response_text'' @ [CHR 0x27] @ '' is not defined'')),
            messages1, t)
         else
           (case respond e prompt t of
              (response_text, t') \<Rightarrow>
                (Inr response_text, messages1 @ [(''assistant'', response_text)], t')))"

section \<open>Sample environments\<close>

text \<open>
  A database with the two tables of the deployment and three patients, and a model that
  answers a synthesis prompt with a count query and any other prompt with a sentence.
\<close>

definition demo_tables :: "string list" where
  "demo_tables =
     [''CREATE TABLE Demography(patient_id, age)'',
      ''CREATE TABLE AdverseEvents(patient_id, event)'']"

definition count_env :: env where
  "count_env =
     \<lparr>generate_content =
        (\<lambda>t prompt. if contains ''Text-to-SQL'' prompt
                    then Inr ''SELECT COUNT(*) FROM Demography''
                    else Inr ''There are 3 patients in the study.''),
      table_sql = (\<lambda>t. Inr demo_tables),
      cursor_execute =
        (\<lambda>t sql. Inr \<lparr>rows = [[NonText ''3'']], description = Some [''COUNT(*)'']\<rparr>)\<rparr>"

text \<open>
  The model answers its first prompt with the sentinel and any later prompt with a
  greeting.
\<close>

definition sentinel_env :: env where
  "sentinel_env =
     count_env\<lparr>generate_content :=
       (\<lambda>t prompt. if llm_prompts t = [] then Inr ''NOT_A_QUERY'' else Inr ''Hello! How can I help?'')\<rparr>"

text \<open>The model asks for a table the database does not have.\<close>

definition failing_env :: env where
  "failing_env =
     \<lparr>generate_content = (\<lambda>t prompt. Inr ''SELECT * FROM Nonexistent''),
      table_sql = (\<lambda>t. Inr demo_tables),
      cursor_execute = (\<lambda>t sql. Inl (SqliteError ''no such table: Nonexistent''))\<rparr>"

text \<open>The query selects no row.\<close>

definition empty_env :: env where
  "empty_env =
     \<lparr>generate_content = (\<lambda>t prompt. Inr ''SELECT patient_id FROM Demography WHERE age > 200''),
      table_sql = (\<lambda>t. Inr demo_tables),
      cursor_execute = (\<lambda>t sql. Inr \<lparr>rows = [], description = Some [''patient_id'']\<rparr>)\<rparr>"

text \<open>A history that fills the window: five turns.\<close>

definition full_history :: "message list" where
  "full_history =
     concat (map (\<lambda>n. [\<lparr>role = ''user'', parts = [''question '' @ n]\<rparr>,
                       \<lparr>role = ''model'', parts = [''answer '' @ n]\<rparr>])
                 [''1'', ''2'', ''3'', ''4'', ''5''])"

text \<open>What \<^verbatim>\<open>history_str\<close> makes of it.\<close>

definition full_history_lines :: string where
  "full_history_lines =
     ''user: question 1\<newline>model: answer 1\<newline>user: question 2\<newline>model: answer 2\<newline>''
     @ ''user: question 3\<newline>model: answer 3\<newline>user: question 4\<newline>model: answer 4\<newline>''
     @ ''user: question 5\<newline>model: answer 5''"

text \<open>The database file is locked by another process: the catalog query fails.\<close>

definition locked_env :: env where
  "locked_env = count_env\<lparr>table_sql := (\<lambda>t. Inl (SqliteError ''database is locked''))\<rparr>"

section \<open>Facts about the string functions\<close>

lemma replace_absent:
  "old \<noteq> [] \<Longrightarrow> \<not> contains old s \<Longrightarrow> replace old new s = s"
  by (induction s) auto

lemma contains_sublist: "contains sub s = sublist sub s"
  by (induction s) (simp_all add: sublist_Cons_right)

lemma contains_middle: "contains x (a @ x @ b)"
  by (simp add: contains_sublist sublist_appendI)

lemma contains_end: "contains x (a @ x)"
  using contains_middle [of x a "[]"] by simp

section \<open>Facts about traces\<close>

lemma executions_append: "executions (a @ b) = executions a @ executions b"
  by (induction a rule: executions.induct) simp_all

lemma llm_prompts_append: "llm_prompts (a @ b) = llm_prompts a @ llm_prompts b"
  by (induction a rule: llm_prompts.induct) simp_all

lemma fetch_schema_trace: "fetch_schema e t = (r, t1) \<Longrightarrow> t1 = t @ [CatalogQuery]"
  by (auto simp: fetch_schema_def)

lemma execute_trace: "execute e sql t = (r, t1) \<Longrightarrow> t1 = t @ [Execute sql]"
  by (auto simp: execute_def)

lemma backend_get_sql_trace:
  "backend_get_sql_from_llm e q schema h t = (Inr sql, t2) \<Longrightarrow>
   \<exists>p. t2 = t @ [LLMCall p]"
  by (auto simp: backend_get_sql_from_llm_def llm_def split: sum.splits prod.splits)

lemma get_sql_trace:
  "get_sql_from_llm e q schema t = (Inr sql, t2) \<Longrightarrow> \<exists>p. t2 = t @ [LLMCall p]"
  by (auto simp: get_sql_from_llm_def llm_def split: sum.splits prod.splits)

section \<open>Facts about the sample environments\<close>

lemma cleanup_sentinel: "cleanup ''NOT_A_QUERY'' = ''NOT_A_QUERY''"
  by (simp add: cleanup_def strip_def isspace_def)

lemma cleanup_empty_query:
  "cleanup ''SELECT patient_id FROM Demography WHERE age > 200''
   = ''SELECT patient_id FROM Demography WHERE age > 200''"
  by (simp add: cleanup_def strip_def isspace_def)

lemma cleanup_failing_query:
  "cleanup ''SELECT * FROM Nonexistent'' = ''SELECT * FROM Nonexistent''"
  by (simp add: cleanup_def strip_def isspace_def)

lemma cleanup_count_query:
  "cleanup ''SELECT COUNT(*) FROM Demography'' = ''SELECT COUNT(*) FROM Demography''"
  by (simp add: cleanup_def strip_def isspace_def)

lemma lower_examples:
  "lower ''How many patients are there?'' = ''how many patients are there?''"
  "lower ''quit'' = ''quit''"
  "lower ''Exit'' = ''exit''"
  "lower [] = []"
  by code_simp+

lemma history_str_empty: "history_str [] = Inr []"
  by (simp add: history_str_def)

lemma full_history_str:
  "history_str full_history =
     Inr (''user: question 1\<newline>model: answer 1\<newline>user: question 2\<newline>model: answer 2\<newline>''
          @ ''user: question 3\<newline>model: answer 3\<newline>user: question 4\<newline>model: answer 4\<newline>''
          @ ''user: question 5\<newline>model: answer 5'')"
  by (simp add: history_str_def full_history_def render_message_def)

lemma count_env_synthesis:
  "generate_content count_env t (sql_prompt schema hs q) = Inr ''SELECT COUNT(*) FROM Demography''"
proof -
  have "contains ''Text-to-SQL'' (sql_prompt schema hs q)"
    using contains_middle [of "''Text-to-SQL''" "''\<newline>You are a ''" ]
    by (simp add: sql_prompt_def sql_prompt_head_def)
  then show ?thesis
    by (simp add: count_env_def)
qed

lemma count_env_database:
  "table_sql count_env t = Inr demo_tables"
  "cursor_execute count_env t sql
     = Inr \<lparr>rows = [[NonText ''3'']], description = Some [''COUNT(*)'']\<rparr>"
  by (simp_all add: count_env_def)

lemma count_turn:
  "history_str h = Inr hs \<Longrightarrow>
   query_database count_env q h [] =
     (Inr ''The answer is: 3'',
      [CatalogQuery, LLMCall (sql_prompt (join ''\<newline>'' demo_tables) hs q),
       Execute ''SELECT COUNT(*) FROM Demography''])"
  by (simp add: query_database_def fetch_schema_def backend_get_sql_from_llm_def llm_def
      count_env_synthesis count_env_database cleanup_count_query execute_def
      backend_format_response_naturally_def)

section \<open>Properties of the cleanup\<close>

text \<open>
  C6, as stated, at a fenced answer.  The model answers with a fenced block,
  \<^verbatim>\<open>```sql\nSELECT 1\n```\<close>.  Stripping comes first and finds nothing; removing the
  backticks and then \<open>sql\<close> leaves the two newlines around the statement, so the
  cleaned text still starts and ends with whitespace and a second cleanup strips it:
  cleaning the cleaned text does not give the same text.
\<close>

theorem cleanup_not_idempotent:
  "cleanup (cleanup ''```sql\<newline>SELECT 1\<newline>```'') \<noteq> cleanup ''```sql\<newline>SELECT 1\<newline>```''"
  by (simp add: cleanup_def strip_def isspace_def)

text \<open>
  C6, amended.  Cleaning text that is already clean (no whitespace at either end, no
  backtick, no occurrence of \<open>sql\<close>) yields the same text.
\<close>

theorem cleanup_marker_free:
  "marker_free s \<Longrightarrow> cleanup s = s"
  by (simp add: marker_free_def cleanup_def replace_absent)

theorem cleanup_marker_free_witness:
  "marker_free ''SELECT COUNT(*) FROM Demography''
   \<and> cleanup ''SELECT COUNT(*) FROM Demography'' = ''SELECT COUNT(*) FROM Demography''"
proof -
  have clean: "marker_free ''SELECT COUNT(*) FROM Demography''"
    by (simp add: marker_free_def strip_def isspace_def)
  from clean cleanup_marker_free [OF clean] show ?thesis by simp
qed

section \<open>The sentinel\<close>

text \<open>
  C1.  When the cleaned answer of the synthesis contains \<open>NOT_A_QUERY\<close>, no SQL
  candidate is executed during the turn.  The interactive variant replies with its fixed
  sentence.  The web variant sends the conversational prompt and replies with the
  model's text (or, where that call raises, with the handler's message).
\<close>

theorem sentinel_never_executes:
  "(fetch_schema e t = (Inr stmts, t1) \<longrightarrow>
    backend_get_sql_from_llm e q (join ''\<newline>'' stmts) h t1 = (Inr sql, t2) \<longrightarrow>
    contains ''NOT_A_QUERY'' sql \<longrightarrow>
      query_database e q h t =
        (Inr ''I can only answer questions related to the clinical database. Please ask me about patients or adverse events.'', t2)
      \<and> executions t2 = executions t)
   \<and> (fetch_schema e t = (Inr stmts, t1) \<longrightarrow>
      get_sql_from_llm e q (join ''\<newline>'' stmts) t1 = (Inr wsql, w2) \<longrightarrow>
      contains ''NOT_A_QUERY'' wsql \<longrightarrow>
        respond e q t =
          ((case generate_content e w2 (conversational_prompt q) of
              Inr text \<Rightarrow> text
            | Inl x \<Rightarrow> ''An error occurred: '' @ str_exn x),
           w2 @ [LLMCall (conversational_prompt q)])
        \<and> executions (w2 @ [LLMCall (conversational_prompt q)]) = executions t)"
proof (intro conjI impI)
  assume f: "fetch_schema e t = (Inr stmts, t1)"
    and s: "backend_get_sql_from_llm e q (join ''\<newline>'' stmts) h t1 = (Inr sql, t2)"
    and c: "contains ''NOT_A_QUERY'' sql"
  show "query_database e q h t =
        (Inr ''I can only answer questions related to the clinical database. Please ask me about patients or adverse events.'', t2)"
    using f s c by (simp add: query_database_def)
  from backend_get_sql_trace [OF s] fetch_schema_trace [OF f]
  show "executions t2 = executions t"
    by (auto simp: executions_append)
next
  assume f: "fetch_schema e t = (Inr stmts, t1)"
    and s: "get_sql_from_llm e q (join ''\<newline>'' stmts) t1 = (Inr wsql, w2)"
    and c: "contains ''NOT_A_QUERY'' wsql"
  show "respond e q t =
          ((case generate_content e w2 (conversational_prompt q) of
              Inr text \<Rightarrow> text
            | Inl x \<Rightarrow> ''An error occurred: '' @ str_exn x),
           w2 @ [LLMCall (conversational_prompt q)])"
    using f s c by (simp add: respond_def try_body_def llm_def split: sum.splits)
  from get_sql_trace [OF s] fetch_schema_trace [OF f]
  show "executions (w2 @ [LLMCall (conversational_prompt q)]) = executions t"
    by (auto simp: executions_append)
qed

theorem sentinel_never_executes_witness:
  "fetch_schema sentinel_env [] = (Inr demo_tables, [CatalogQuery])
   \<and> backend_get_sql_from_llm sentinel_env ''hello'' (join ''\<newline>'' demo_tables) [] [CatalogQuery]
       = (Inr ''NOT_A_QUERY'',
          [CatalogQuery, LLMCall (sql_prompt (join ''\<newline>'' demo_tables) [] ''hello'')])
   \<and> get_sql_from_llm sentinel_env ''hello'' (join ''\<newline>'' demo_tables) [CatalogQuery]
       = (Inr ''NOT_A_QUERY'',
          [CatalogQuery, LLMCall (web_sql_prompt (join ''\<newline>'' demo_tables) ''hello'')])
   \<and> contains ''NOT_A_QUERY'' ''NOT_A_QUERY''
   \<and> query_database sentinel_env ''hello'' [] [] =
        (Inr ''I can only answer questions related to the clinical database. Please ask me about patients or adverse events.'',
         [CatalogQuery, LLMCall (sql_prompt (join ''\<newline>'' demo_tables) [] ''hello'')])
   \<and> executions [CatalogQuery, LLMCall (sql_prompt (join ''\<newline>'' demo_tables) [] ''hello'')] = []
   \<and> respond sentinel_env ''hello'' [] =
        (''Hello! How can I help?'',
         [CatalogQuery, LLMCall (web_sql_prompt (join ''\<newline>'' demo_tables) ''hello''),
          LLMCall (conversational_prompt ''hello'')])"
proof -
  have f: "fetch_schema sentinel_env [] = (Inr demo_tables, [CatalogQuery])"
    by (simp add: fetch_schema_def sentinel_env_def count_env_def)
  have s: "backend_get_sql_from_llm sentinel_env ''hello'' (join ''\<newline>'' demo_tables) [] [CatalogQuery]
       = (Inr ''NOT_A_QUERY'',
          [CatalogQuery, LLMCall (sql_prompt (join ''\<newline>'' demo_tables) [] ''hello'')])"
    by (simp add: backend_get_sql_from_llm_def history_str_def llm_def sentinel_env_def
        count_env_def cleanup_sentinel)
  have w: "get_sql_from_llm sentinel_env ''hello'' (join ''\<newline>'' demo_tables) [CatalogQuery]
       = (Inr ''NOT_A_QUERY'',
          [CatalogQuery, LLMCall (web_sql_prompt (join ''\<newline>'' demo_tables) ''hello'')])"
    by (simp add: get_sql_from_llm_def llm_def sentinel_env_def count_env_def cleanup_sentinel)
  have c: "contains ''NOT_A_QUERY'' ''NOT_A_QUERY''"
    by simp
  have g: "generate_content sentinel_env
             [CatalogQuery, LLMCall (web_sql_prompt (join ''\<newline>'' demo_tables) ''hello'')]
             (conversational_prompt ''hello'') = Inr ''Hello! How can I help?''"
    by (simp add: sentinel_env_def count_env_def)
  note th = sentinel_never_executes [where e = sentinel_env and t = "[]" and stmts = demo_tables
      and ?t1.0 = "[CatalogQuery]" and q = "''hello''" and h = "[]" and sql = "''NOT_A_QUERY''"
      and wsql = "''NOT_A_QUERY''"
      and ?t2.0 = "[CatalogQuery, LLMCall (sql_prompt (join ''\<newline>'' demo_tables) [] ''hello'')]"
      and ?w2.0 = "[CatalogQuery, LLMCall (web_sql_prompt (join ''\<newline>'' demo_tables) ''hello'')]"]
  from th f s w c g show ?thesis by simp
qed

section \<open>Results without rows\<close>

text \<open>
  C7.  When the executed candidate returns no row, the reply is the fixed sentence and
  the turn has sent one prompt only, the synthesis prompt: no prompt follows the
  execution.  Both variants.
\<close>

theorem no_results_without_composer_call:
  "(fetch_schema e t = (Inr stmts, t1) \<longrightarrow>
    backend_get_sql_from_llm e q (join ''\<newline>'' stmts) h t1 = (Inr sql, t2) \<longrightarrow>
    \<not> contains ''NOT_A_QUERY'' sql \<longrightarrow>
    execute e sql t2 = (Inr cur, t3) \<longrightarrow>
    rows cur = [] \<longrightarrow>
      query_database e q h t = (Inr ''I found no results for your query.'', t3)
      \<and> llm_prompts t3 = llm_prompts t2
      \<and> length (llm_prompts t3) = Suc (length (llm_prompts t)))
   \<and> (fetch_schema e t = (Inr stmts, t1) \<longrightarrow>
      get_sql_from_llm e q (join ''\<newline>'' stmts) t1 = (Inr wsql, w2) \<longrightarrow>
      \<not> contains ''NOT_A_QUERY'' wsql \<longrightarrow>
      execute e wsql w2 = (Inr wcur, w3) \<longrightarrow>
      rows wcur = [] \<longrightarrow>
        respond e q t = (''I found no results for your query.'', w3)
        \<and> llm_prompts w3 = llm_prompts w2
        \<and> length (llm_prompts w3) = Suc (length (llm_prompts t)))"
proof (intro conjI impI)
  assume f: "fetch_schema e t = (Inr stmts, t1)"
    and s: "backend_get_sql_from_llm e q (join ''\<newline>'' stmts) h t1 = (Inr sql, t2)"
    and c: "\<not> contains ''NOT_A_QUERY'' sql"
    and x: "execute e sql t2 = (Inr cur, t3)"
    and r: "rows cur = []"
  show "query_database e q h t = (Inr ''I found no results for your query.'', t3)"
    using f s c x r by (simp add: query_database_def)
  from execute_trace [OF x] show "llm_prompts t3 = llm_prompts t2"
    by (simp add: llm_prompts_append)
  from execute_trace [OF x] backend_get_sql_trace [OF s] fetch_schema_trace [OF f]
  show "length (llm_prompts t3) = Suc (length (llm_prompts t))"
    by (auto simp: llm_prompts_append)
next
  assume f: "fetch_schema e t = (Inr stmts, t1)"
    and s: "get_sql_from_llm e q (join ''\<newline>'' stmts) t1 = (Inr wsql, w2)"
    and c: "\<not> contains ''NOT_A_QUERY'' wsql"
    and x: "execute e wsql w2 = (Inr wcur, w3)"
    and r: "rows wcur = []"
  show "respond e q t = (''I found no results for your query.'', w3)"
    using f s c x r by (simp add: respond_def try_body_def format_response_naturally_def)
  from execute_trace [OF x] show "llm_prompts w3 = llm_prompts w2"
    by (simp add: llm_prompts_append)
  from execute_trace [OF x] get_sql_trace [OF s] fetch_schema_trace [OF f]
  show "length (llm_prompts w3) = Suc (length (llm_prompts t))"
    by (auto simp: llm_prompts_append)
qed

theorem no_results_without_composer_call_witness:
  "fetch_schema empty_env [] = (Inr demo_tables, [CatalogQuery])
   \<and> backend_get_sql_from_llm empty_env ''Who is older than 200?'' (join ''\<newline>'' demo_tables) []
        [CatalogQuery]
       = (Inr ''SELECT patient_id FROM Demography WHERE age > 200'',
          [CatalogQuery,
           LLMCall (sql_prompt (join ''\<newline>'' demo_tables) [] ''Who is older than 200?'')])
   \<and> get_sql_from_llm empty_env ''Who is older than 200?'' (join ''\<newline>'' demo_tables)
        [CatalogQuery]
       = (Inr ''SELECT patient_id FROM Demography WHERE age > 200'',
          [CatalogQuery,
           LLMCall (web_sql_prompt (join ''\<newline>'' demo_tables) ''Who is older than 200?'')])
   \<and> \<not> contains ''NOT_A_QUERY'' ''SELECT patient_id FROM Demography WHERE age > 200''
   \<and> rows \<lparr>rows = [], description = Some [''patient_id'']\<rparr> = []
   \<and> query_database empty_env ''Who is older than 200?'' [] [] =
        (Inr ''I found no results for your query.'',
         [CatalogQuery,
          LLMCall (sql_prompt (join ''\<newline>'' demo_tables) [] ''Who is older than 200?''),
          Execute ''SELECT patient_id FROM Demography WHERE age > 200''])
   \<and> respond empty_env ''Who is older than 200?'' [] =
        (''I found no results for your query.'',
         [CatalogQuery,
          LLMCall (web_sql_prompt (join ''\<newline>'' demo_tables) ''Who is older than 200?''),
          Execute ''SELECT patient_id FROM Demography WHERE age > 200''])"
proof -
  let ?q = "''Who is older than 200?''"
  let ?sql = "''SELECT patient_id FROM Demography WHERE age > 200''"
  let ?t2 = "[CatalogQuery, LLMCall (sql_prompt (join ''\<newline>'' demo_tables) [] ?q)]"
  let ?w2 = "[CatalogQuery, LLMCall (web_sql_prompt (join ''\<newline>'' demo_tables) ?q)]"
  let ?cur = "\<lparr>rows = [], description = Some [''patient_id'']\<rparr>"
  have f: "fetch_schema empty_env [] = (Inr demo_tables, [CatalogQuery])"
    by (simp add: fetch_schema_def empty_env_def)
  have s: "backend_get_sql_from_llm empty_env ?q (join ''\<newline>'' demo_tables) [] [CatalogQuery]
           = (Inr ?sql, ?t2)"
    by (simp add: backend_get_sql_from_llm_def history_str_def llm_def empty_env_def
        cleanup_empty_query)
  have w: "get_sql_from_llm empty_env ?q (join ''\<newline>'' demo_tables) [CatalogQuery]
           = (Inr ?sql, ?w2)"
    by (simp add: get_sql_from_llm_def llm_def empty_env_def cleanup_empty_query)
  have c: "\<not> contains ''NOT_A_QUERY'' ?sql"
    by simp
  have x: "execute empty_env ?sql ?t2 = (Inr ?cur, ?t2 @ [Execute ?sql])"
    by (simp add: execute_def empty_env_def)
  have wx: "execute empty_env ?sql ?w2 = (Inr ?cur, ?w2 @ [Execute ?sql])"
    by (simp add: execute_def empty_env_def)
  have r: "rows ?cur = []"
    by simp
  note th = no_results_without_composer_call [where e = empty_env and t = "[]"
      and stmts = demo_tables and ?t1.0 = "[CatalogQuery]" and q = ?q and h = "[]"
      and sql = ?sql and wsql = ?sql and ?t2.0 = ?t2 and ?w2.0 = ?w2 and cur = ?cur
      and wcur = ?cur and ?t3.0 = "?t2 @ [Execute ?sql]" and ?w3.0 = "?w2 @ [Execute ?sql]"]
  from th f s w c x wx r show ?thesis by simp
qed

section \<open>The fast path of the Response Composer\<close>

text \<open>
  C2, as stated, in the web variant.  \<^verbatim>\<open>format_response_naturally\<close> of
  \<^verbatim>\<open>streamlit_app.py\<close> has no fast path: for the result of a count, one row with one
  column, it sends a prompt to the model and returns the model's text, not a templated
  sentence.
\<close>

theorem web_single_value_calls_llm:
  "format_response_naturally count_env ''How many patients are there?'' [[NonText ''3'']]
     [''COUNT(*)''] []
   = (Inr ''There are 3 patients in the study.'',
      [LLMCall (web_answer_prompt ''How many patients are there?'' ''COUNT(*)\<newline>3'')])"
  by (simp add: format_response_naturally_def llm_def count_env_def web_data_string_def
      web_answer_prompt_def web_answer_prompt_head_def web_answer_prompt_data_def
      web_answer_prompt_tail_def strip_def isspace_def)

text \<open>
  C2, amended.  In the interactive variant a result with exactly one row and exactly one
  column is answered by \<open>The answer is: \<close> followed by the text of the value, and the
  trace is unchanged: no prompt is sent.  In the web variant every result with at least
  one row, whatever its shape, costs exactly one prompt.
\<close>

theorem single_value_fast_path:
  "backend_format_response_naturally e question [[v]] [c] chat_history t
     = (Inr (''The answer is: '' @ str_val v), t)
   \<and> (results \<noteq> [] \<longrightarrow>
        snd (format_response_naturally e question results column_names t)
        = t @ [LLMCall (web_answer_prompt question (web_data_string results column_names))])"
  by (simp add: backend_format_response_naturally_def format_response_naturally_def llm_def
      split: sum.splits)

theorem single_value_fast_path_witness:
  "backend_format_response_naturally count_env ''How many patients are there?''
       [[NonText ''3'']] [''COUNT(*)''] [] []
     = (Inr ''The answer is: 3'', [])
   \<and> [[NonText ''3'']] \<noteq> []
   \<and> snd (format_response_naturally count_env ''How many patients are there?''
            [[NonText ''3'']] [''COUNT(*)''] [])
     = [LLMCall (web_answer_prompt ''How many patients are there?'' ''COUNT(*)\<newline>3'')]"
  using single_value_fast_path [where e = count_env and question = "''How many patients are there?''"
      and v = "NonText ''3''" and c = "''COUNT(*)''" and chat_history = "[]" and t = "[]"
      and results = "[[NonText ''3'']]" and column_names = "[''COUNT(*)'']"]
  by (simp add: web_data_string_def)

section \<open>Execution failures\<close>

text \<open>
  C3, as stated, in the web variant.  The handler of \<^verbatim>\<open>streamlit_app.py\<close> (lines
  125-126) builds the reply from the exception alone: when the database rejects the
  candidate, the reply carries the error text and not the SQL text.
\<close>

theorem web_failure_reply_lacks_sql:
  "respond failing_env ''Show me everything'' [] =
     (''An error occurred: no such table: Nonexistent'',
      [CatalogQuery,
       LLMCall (web_sql_prompt (join ''\<newline>'' demo_tables) ''Show me everything''),
       Execute ''SELECT * FROM Nonexistent''])
   \<and> \<not> contains ''SELECT * FROM Nonexistent'' ''An error occurred: no such table: Nonexistent''"
  by (simp add: respond_def try_body_def fetch_schema_def get_sql_from_llm_def llm_def
      execute_def failing_env_def cleanup_failing_query)

text \<open>
  C3, amended.  In the interactive variant, when executing a candidate that is not the
  sentinel raises a database error, the reply contains the error text and the SQL text.
  In the web variant, when executing the candidate raises, the reply is
  \<open>An error occurred: \<close> followed by the error text.
\<close>

theorem execution_failure_reply:
  "(fetch_schema e t = (Inr stmts, t1) \<longrightarrow>
    backend_get_sql_from_llm e q (join ''\<newline>'' stmts) h t1 = (Inr sql, t2) \<longrightarrow>
    \<not> contains ''NOT_A_QUERY'' sql \<longrightarrow>
    execute e sql t2 = (Inl (SqliteError m), t3) \<longrightarrow>
      (\<exists>reply. query_database e q h t = (Inr reply, t3)
         \<and> contains m reply \<and> contains sql reply))
   \<and> (fetch_schema e t = (Inr stmts, t1) \<longrightarrow>
      get_sql_from_llm e q (join ''\<newline>'' stmts) t1 = (Inr wsql, w2) \<longrightarrow>
      \<not> contains ''NOT_A_QUERY'' wsql \<longrightarrow>
      execute e wsql w2 = (Inl x, w3) \<longrightarrow>
        respond e q t = (''An error occurred: '' @ str_exn x, w3)
        \<and> contains (str_exn x) (''An error occurred: '' @ str_exn x))"
proof (intro conjI impI)
  assume f: "fetch_schema e t = (Inr stmts, t1)"
    and s: "backend_get_sql_from_llm e q (join ''\<newline>'' stmts) h t1 = (Inr sql, t2)"
    and c: "\<not> contains ''NOT_A_QUERY'' sql"
    and x: "execute e sql t2 = (Inl (SqliteError m), t3)"
  let ?reply = "''I couldn't run the query. The database returned an error: '' @ m
                @ ''\<newline>Faulty SQL was: '' @ sql"
  have "query_database e q h t = (Inr ?reply, t3)"
    using f s c x by (simp add: query_database_def)
  moreover have "contains m ?reply"
    by (rule contains_middle)
  moreover have "contains sql ?reply"
    using contains_end [of sql "''I couldn't run the query. The database returned an error: '' @ m
                @ ''\<newline>Faulty SQL was: ''"] by simp
  ultimately show "\<exists>reply. query_database e q h t = (Inr reply, t3)
         \<and> contains m reply \<and> contains sql reply"
    by blast
next
  assume f: "fetch_schema e t = (Inr stmts, t1)"
    and s: "get_sql_from_llm e q (join ''\<newline>'' stmts) t1 = (Inr wsql, w2)"
    and c: "\<not> contains ''NOT_A_QUERY'' wsql"
    and x: "execute e wsql w2 = (Inl x, w3)"
  show "respond e q t = (''An error occurred: '' @ str_exn x, w3)"
    using f s c x by (simp add: respond_def try_body_def)
  show "contains (str_exn x) (''An error occurred: '' @ str_exn x)"
    by (rule contains_end)
qed

theorem execution_failure_reply_witness:
  "fetch_schema failing_env [] = (Inr demo_tables, [CatalogQuery])
   \<and> backend_get_sql_from_llm failing_env ''Show me everything'' (join ''\<newline>'' demo_tables) []
        [CatalogQuery]
       = (Inr ''SELECT * FROM Nonexistent'',
          [CatalogQuery,
           LLMCall (sql_prompt (join ''\<newline>'' demo_tables) [] ''Show me everything'')])
   \<and> get_sql_from_llm failing_env ''Show me everything'' (join ''\<newline>'' demo_tables)
        [CatalogQuery]
       = (Inr ''SELECT * FROM Nonexistent'',
          [CatalogQuery,
           LLMCall (web_sql_prompt (join ''\<newline>'' demo_tables) ''Show me everything'')])
   \<and> \<not> contains ''NOT_A_QUERY'' ''SELECT * FROM Nonexistent''
   \<and> (\<exists>reply. query_database failing_env ''Show me everything'' [] [] =
          (Inr reply,
           [CatalogQuery,
            LLMCall (sql_prompt (join ''\<newline>'' demo_tables) [] ''Show me everything''),
            Execute ''SELECT * FROM Nonexistent''])
        \<and> contains ''no such table: Nonexistent'' reply
        \<and> contains ''SELECT * FROM Nonexistent'' reply)
   \<and> respond failing_env ''Show me everything'' [] =
        (''An error occurred: no such table: Nonexistent'',
         [CatalogQuery,
          LLMCall (web_sql_prompt (join ''\<newline>'' demo_tables) ''Show me everything''),
          Execute ''SELECT * FROM Nonexistent''])"
proof -
  let ?q = "''Show me everything''"
  let ?sql = "''SELECT * FROM Nonexistent''"
  let ?t2 = "[CatalogQuery, LLMCall (sql_prompt (join ''\<newline>'' demo_tables) [] ?q)]"
  let ?w2 = "[CatalogQuery, LLMCall (web_sql_prompt (join ''\<newline>'' demo_tables) ?q)]"
  let ?x = "SqliteError ''no such table: Nonexistent''"
  have f: "fetch_schema failing_env [] = (Inr demo_tables, [CatalogQuery])"
    by (simp add: fetch_schema_def failing_env_def)
  have s: "backend_get_sql_from_llm failing_env ?q (join ''\<newline>'' demo_tables) [] [CatalogQuery]
           = (Inr ?sql, ?t2)"
    by (simp add: backend_get_sql_from_llm_def history_str_def llm_def failing_env_def
        cleanup_failing_query)
  have w: "get_sql_from_llm failing_env ?q (join ''\<newline>'' demo_tables) [CatalogQuery]
           = (Inr ?sql, ?w2)"
    by (simp add: get_sql_from_llm_def llm_def failing_env_def cleanup_failing_query)
  have c: "\<not> contains ''NOT_A_QUERY'' ?sql"
    by simp
  have x: "execute failing_env ?sql ?t2 = (Inl ?x, ?t2 @ [Execute ?sql])"
    by (simp add: execute_def failing_env_def)
  have wx: "execute failing_env ?sql ?w2 = (Inl ?x, ?w2 @ [Execute ?sql])"
    by (simp add: execute_def failing_env_def)
  note th = execution_failure_reply [where e = failing_env and t = "[]"
      and stmts = demo_tables and ?t1.0 = "[CatalogQuery]" and q = ?q and h = "[]"
      and sql = ?sql and wsql = ?sql and ?t2.0 = ?t2 and ?w2.0 = ?w2
      and m = "''no such table: Nonexistent''" and x = ?x
      and ?t3.0 = "?t2 @ [Execute ?sql]" and ?w3.0 = "?w2 @ [Execute ?sql]"]
  from th f s w c x wx show ?thesis by simp
qed

section \<open>Errors at the turn boundary\<close>

text \<open>
  What the handlers of \<^verbatim>\<open>query_database\<close> do cover: once the schema is fetched, every
  exception raised later in the turn becomes a reply, unless the synthesis itself raises
  a database error.
\<close>

lemma query_database_replies:
  assumes "fetch_schema e t = (Inr stmts, t1)"
    and "\<And>m t2. backend_get_sql_from_llm e q (join ''\<newline>'' stmts) h t1 \<noteq> (Inl (SqliteError m), t2)"
  shows "\<exists>reply t'. query_database e q h t = (Inr reply, t')"
proof -
  have h1: "\<exists>r. handle_exception x (Some sql) = Inr r" for x sql
    by (cases x) auto
  have h2: "(\<forall>m. x \<noteq> SqliteError m) \<Longrightarrow> \<exists>r. handle_exception x None = Inr r" for x
    by (cases x) auto
  show ?thesis
    using assms h1 h2
    apply (simp add: query_database_def split: prod.splits sum.splits option.splits)
    apply (intro conjI allI impI; metis)
    done
qed

text \<open>
  C4 at a database whose catalog query raises.  The schema is fetched before the
  \<^verbatim>\<open>try\<close> of \<^verbatim>\<open>query_database\<close>, so the exception leaves the function, the loop has no
  handler, and the session ends with the exception: the second line of input is never
  read.  The web variant fetches the schema inside its \<^verbatim>\<open>try\<close> and turns the same
  exception into a reply.
\<close>

theorem schema_failure_ends_session:
  "query_database locked_env ''How many patients are there?'' [] []
     = (Inl (SqliteError ''database is locked''), [CatalogQuery])
   \<and> chat_loop locked_env [''How many patients are there?'', ''How old is the oldest?''] [] []
     = (Uncaught (SqliteError ''database is locked''), [], [CatalogQuery])
   \<and> respond locked_env ''How many patients are there?'' []
     = (''An error occurred: database is locked'', [CatalogQuery])"
  by (simp add: query_database_def chat_turn_def fetch_schema_def locked_env_def count_env_def
      respond_def try_body_def lower_def lower_char_def)

section \<open>The history window\<close>

lemma length_trim_history: "length (trim_history h) \<le> MAX_HISTORY_TURNS * 2"
  by (simp add: trim_history_def)

lemma trim_history_drop:
  "trim_history h = drop (length h - MAX_HISTORY_TURNS * 2) h"
  by (simp add: trim_history_def)

text \<open>
  C5.  A turn that completes leaves a history of at most \<open>MAX_HISTORY_TURNS * 2\<close>
  entries, whatever the history before it was.  The new history is the old one with the
  user entry and the model entry of the turn appended, cut at the front: it is the last
  \<open>MAX_HISTORY_TURNS * 2\<close> entries when there are more than that, and everything
  otherwise.
\<close>

theorem history_window:
  assumes "chat_turn e q h t = (Inr (response, h'), t')"
  shows "length h' \<le> MAX_HISTORY_TURNS * 2
    \<and> h' = drop (length h + 2 - MAX_HISTORY_TURNS * 2)
              (h @ [\<lparr>role = ''user'', parts = [q]\<rparr>, \<lparr>role = ''model'', parts = [response]\<rparr>])
    \<and> length h' = min (length h + 2) (MAX_HISTORY_TURNS * 2)"
proof -
  let ?full = "h @ [\<lparr>role = ''user'', parts = [q]\<rparr>, \<lparr>role = ''model'', parts = [response]\<rparr>]"
  from assms have eq: "h' = trim_history ?full"
    by (auto simp: chat_turn_def split: prod.splits sum.splits)
  then have d: "h' = drop (length h + 2 - MAX_HISTORY_TURNS * 2) ?full"
    by (simp add: trim_history_drop)
  from eq have "length h' \<le> MAX_HISTORY_TURNS * 2"
    by (simp only: length_trim_history)
  moreover from d have "length h' = min (length h + 2) (MAX_HISTORY_TURNS * 2)"
    by auto
  ultimately show ?thesis using d by blast
qed

theorem history_window_witness:
  "chat_turn count_env ''question 6'' full_history [] =
     (Inr (''The answer is: 3'',
           drop 2 full_history
           @ [\<lparr>role = ''user'', parts = [''question 6'']\<rparr>,
              \<lparr>role = ''model'', parts = [''The answer is: 3'']\<rparr>]),
      [CatalogQuery,
       LLMCall (sql_prompt (join ''\<newline>'' demo_tables) full_history_lines ''question 6''),
       Execute ''SELECT COUNT(*) FROM Demography''])
   \<and> length full_history = MAX_HISTORY_TURNS * 2
   \<and> length (drop 2 full_history
          @ [\<lparr>role = ''user'', parts = [''question 6'']\<rparr>,
             \<lparr>role = ''model'', parts = [''The answer is: 3'']\<rparr>]) = MAX_HISTORY_TURNS * 2"
proof -
  have len: "length full_history = 10"
    by (simp add: full_history_def)
  have hs: "history_str full_history = Inr full_history_lines"
    by (simp add: full_history_str full_history_lines_def)
  have turn: "chat_turn count_env ''question 6'' full_history [] =
     (Inr (''The answer is: 3'',
           drop 2 full_history
           @ [\<lparr>role = ''user'', parts = [''question 6'']\<rparr>,
              \<lparr>role = ''model'', parts = [''The answer is: 3'']\<rparr>]),
      [CatalogQuery,
       LLMCall (sql_prompt (join ''\<newline>'' demo_tables) full_history_lines ''question 6''),
       Execute ''SELECT COUNT(*) FROM Demography''])"
    by (simp add: chat_turn_def count_turn [OF hs] trim_history_def MAX_HISTORY_TURNS_def len)
  from history_window [OF turn] len show ?thesis
    by (simp add: MAX_HISTORY_TURNS_def turn)
qed

section \<open>Whole turns in the history\<close>

lemma alternates_append: "alternates a \<Longrightarrow> alternates b \<Longrightarrow> alternates (a @ b)"
  by (induction a rule: alternates.induct) simp_all

lemma alternates_even: "alternates h \<Longrightarrow> even (length h)"
  by (induction h rule: alternates.induct) simp_all

lemma alternates_drop: "alternates h \<Longrightarrow> even k \<Longrightarrow> alternates (drop k h)"
proof (induction h arbitrary: k rule: alternates.induct)
  case 1
  then show ?case by simp
next
  case (2 m)
  then show ?case by simp
next
  case (3 u m rest)
  show ?case
  proof (cases k)
    case 0
    with 3 show ?thesis by simp
  next
    case (Suc j)
    with \<open>even k\<close> obtain i where "j = Suc i" and "even i"
      by (cases j) auto
    with 3 Suc show ?thesis by simp
  qed
qed

lemma alternates_nth:
  "alternates h \<Longrightarrow> i < length h \<Longrightarrow> role (h ! i) = (if even i then ''user'' else ''model'')"
proof (induction h arbitrary: i rule: alternates.induct)
  case 1
  then show ?case by simp
next
  case (2 m)
  then show ?case by simp
next
  case (3 u m rest)
  show ?case
  proof (cases i)
    case 0
    with 3 show ?thesis by simp
  next
    case (Suc j)
    show ?thesis
    proof (cases j)
      case 0
      with 3 Suc show ?thesis by simp
    next
      case (Suc l)
      with 3 \<open>i = Suc j\<close> show ?thesis by simp
    qed
  qed
qed

lemma alternates_trim_history:
  assumes "alternates h"
  shows "alternates (trim_history h)"
proof (cases "length h > MAX_HISTORY_TURNS * 2")
  case True
  from assms have "even (length h)"
    by (rule alternates_even)
  then have "even (length h - MAX_HISTORY_TURNS * 2)"
    by simp
  with assms have "alternates (drop (length h - MAX_HISTORY_TURNS * 2) h)"
    by (rule alternates_drop)
  with True show ?thesis
    by (simp add: trim_history_def)
next
  case False
  with assms show ?thesis
    by (simp add: trim_history_def)
qed

lemma chat_turn_history:
  assumes "chat_turn e q h t = (Inr (response, h1), t1)"
  shows "h1 = trim_history
           (h @ [\<lparr>role = ''user'', parts = [q]\<rparr>, \<lparr>role = ''model'', parts = [response]\<rparr>])"
  using assms by (auto simp: chat_turn_def split: prod.splits sum.splits)

lemma chat_turn_alternates:
  assumes "alternates h" and "chat_turn e q h t = (Inr (response, h1), t1)"
  shows "alternates h1"
proof -
  have "alternates [\<lparr>role = ''user'', parts = [q]\<rparr>, \<lparr>role = ''model'', parts = [response]\<rparr>]"
    by simp
  with assms(1) have "alternates
      (h @ [\<lparr>role = ''user'', parts = [q]\<rparr>, \<lparr>role = ''model'', parts = [response]\<rparr>])"
    by (rule alternates_append)
  then show ?thesis
    unfolding chat_turn_history [OF assms(2)] by (rule alternates_trim_history)
qed

lemma chat_loop_alternates:
  "alternates h \<Longrightarrow> chat_loop e inputs h t = (fin, h', t') \<Longrightarrow> alternates h'"
proof (induction inputs arbitrary: h t)
  case Nil
  then show ?case by simp
next
  case (Cons q inputs)
  show ?case
  proof (cases "lower q \<in> set [''quit'', ''exit'']")
    case True
    with Cons.prems show ?thesis by simp
  next
    case False
    show ?thesis
    proof (cases "chat_turn e q h t")
      case (Pair r t1)
      show ?thesis
      proof (cases r)
        case (Inl x)
        with Cons.prems False Pair show ?thesis by simp
      next
        case (Inr p)
        obtain response h1 where p: "p = (response, h1)" by (cases p)
        from Cons.prems(1) Pair Inr p have "alternates h1"
          by (auto intro: chat_turn_alternates)
        moreover from Cons.prems(2) False Pair Inr p
        have "chat_loop e inputs h1 t1 = (fin, h', t')" by simp
        ultimately show ?thesis by (rule Cons.IH)
      qed
    qed
  qed
qed

text \<open>
  C10.  A turn that completes puts one \<open>user\<close> entry and then one \<open>model\<close> entry at the
  end of the history, before the window is cut; this holds for every reply, the fixed
  ones included.  Starting from a history of whole turns (the empty one, at line 192),
  the history at the end of any session is again made of whole turns: its length is
  even, the entries at even positions are \<open>user\<close> entries and those at odd positions
  are \<open>model\<close> entries.
\<close>

theorem history_of_whole_turns:
  assumes "alternates h"
  shows "(chat_turn e q h t = (Inr (response, h1), t1) \<longrightarrow>
            h1 = trim_history
                   (h @ [\<lparr>role = ''user'', parts = [q]\<rparr>, \<lparr>role = ''model'', parts = [response]\<rparr>])
            \<and> alternates h1)
       \<and> (chat_loop e inputs h t = (fin, h', t') \<longrightarrow>
            alternates h' \<and> even (length h')
            \<and> (\<forall>i < length h'. role (h' ! i) = (if even i then ''user'' else ''model'')))"
proof (intro conjI impI allI)
  assume turn: "chat_turn e q h t = (Inr (response, h1), t1)"
  then show "h1 = trim_history
      (h @ [\<lparr>role = ''user'', parts = [q]\<rparr>, \<lparr>role = ''model'', parts = [response]\<rparr>])"
    by (rule chat_turn_history)
  from assms turn show "alternates h1"
    by (rule chat_turn_alternates)
next
  assume "chat_loop e inputs h t = (fin, h', t')"
  with assms have a: "alternates h'"
    by (rule chat_loop_alternates)
  then show "alternates h'" .
  from a show "even (length h')"
    by (rule alternates_even)
  fix i
  assume "i < length h'"
  with a show "role (h' ! i) = (if even i then ''user'' else ''model'')"
    by (rule alternates_nth)
qed

theorem history_of_whole_turns_witness:
  "alternates []
   \<and> chat_turn count_env ''How many patients are there?'' [] [] =
       (Inr (''The answer is: 3'',
             [\<lparr>role = ''user'', parts = [''How many patients are there?'']\<rparr>,
              \<lparr>role = ''model'', parts = [''The answer is: 3'']\<rparr>]),
        [CatalogQuery,
         LLMCall (sql_prompt (join ''\<newline>'' demo_tables) [] ''How many patients are there?''),
         Execute ''SELECT COUNT(*) FROM Demography''])
   \<and> chat_loop count_env [''How many patients are there?'', ''quit''] [] [] =
       (Goodbye,
        [\<lparr>role = ''user'', parts = [''How many patients are there?'']\<rparr>,
         \<lparr>role = ''model'', parts = [''The answer is: 3'']\<rparr>],
        [CatalogQuery,
         LLMCall (sql_prompt (join ''\<newline>'' demo_tables) [] ''How many patients are there?''),
         Execute ''SELECT COUNT(*) FROM Demography''])
   \<and> alternates [\<lparr>role = ''user'', parts = [''How many patients are there?'']\<rparr>,
                  \<lparr>role = ''model'', parts = [''The answer is: 3'']\<rparr>]
   \<and> even (length [\<lparr>role = ''user'', parts = [''How many patients are there?'']\<rparr>,
                    \<lparr>role = ''model'', parts = [''The answer is: 3'']\<rparr>])"
proof -
  let ?q = "''How many patients are there?''"
  let ?h = "[\<lparr>role = ''user'', parts = [?q]\<rparr>, \<lparr>role = ''model'', parts = [''The answer is: 3'']\<rparr>]"
  let ?t = "[CatalogQuery, LLMCall (sql_prompt (join ''\<newline>'' demo_tables) [] ?q),
             Execute ''SELECT COUNT(*) FROM Demography'']"
  have a: "alternates []"
    by simp
  have turn: "chat_turn count_env ?q [] [] = (Inr (''The answer is: 3'', ?h), ?t)"
    by (simp add: chat_turn_def count_turn [OF history_str_empty] trim_history_def
        MAX_HISTORY_TURNS_def)
  have loop: "chat_loop count_env [?q, ''quit''] [] [] = (Goodbye, ?h, ?t)"
    by (simp add: turn lower_examples)
  from history_of_whole_turns [OF a, where e = count_env and q = ?q and t = "[]"
      and response = "''The answer is: 3''" and ?h1.0 = ?h and ?t1.0 = ?t
      and inputs = "[?q, ''quit'']" and fin = Goodbye and h' = ?h and t' = ?t]
    a turn loop
  show ?thesis by simp
qed

section \<open>Leaving the loop\<close>

text \<open>
  C9, as stated, at a blank line.  The loop tests the input against \<open>quit\<close> and
  \<open>exit\<close> only.  A blank line is sent to \<^verbatim>\<open>query_database\<close> like any question: a
  prompt goes to the model, the candidate is executed, the turn is recorded in the
  history, and the session goes on to read the next line.
\<close>

theorem blank_input_is_processed:
  "chat_loop count_env [[], ''quit''] [] [] =
     (Goodbye,
      [\<lparr>role = ''user'', parts = [[]]\<rparr>, \<lparr>role = ''model'', parts = [''The answer is: 3'']\<rparr>],
      [CatalogQuery, LLMCall (sql_prompt (join ''\<newline>'' demo_tables) [] []),
       Execute ''SELECT COUNT(*) FROM Demography''])"
  by (simp add: chat_turn_def count_turn [OF history_str_empty] trim_history_def
      MAX_HISTORY_TURNS_def lower_examples)

text \<open>
  C9, amended.  An input that reads \<open>quit\<close> or \<open>exit\<close> once put in lower case ends
  the session: nothing is sent to the model or the database and the history is
  unchanged.  Any other input, the blank line included, is processed as a question.
\<close>

theorem quit_ends_session:
  "(lower user_question \<in> set [''quit'', ''exit''] \<longrightarrow>
      chat_loop e (user_question # inputs) h t = (Goodbye, h, t))
   \<and> (lower user_question \<notin> set [''quit'', ''exit''] \<longrightarrow>
      chat_loop e (user_question # inputs) h t =
        (case chat_turn e user_question h t of
           (Inl x, t') \<Rightarrow> (Uncaught x, h, t')
         | (Inr (response, h'), t') \<Rightarrow> chat_loop e inputs h' t'))
   \<and> lower [] \<notin> set [''quit'', ''exit'']"
  by (simp add: lower_def)

theorem quit_ends_session_witness:
  "lower ''Exit'' \<in> set [''quit'', ''exit'']
   \<and> chat_loop count_env [''Exit'', ''How many patients are there?''] full_history []
       = (Goodbye, full_history, [])
   \<and> lower [] \<notin> set [''quit'', ''exit'']
   \<and> chat_loop count_env [[], ''quit''] [] [] =
       (case chat_turn count_env [] [] [] of
          (Inl x, t') \<Rightarrow> (Uncaught x, [], t')
        | (Inr (response, h'), t') \<Rightarrow> chat_loop count_env [''quit''] h' t')"
proof -
  have q: "lower ''Exit'' \<in> set [''quit'', ''exit'']"
    by (simp add: lower_examples)
  have b: "lower [] \<notin> set [''quit'', ''exit'']"
    by (simp add: lower_examples)
  from quit_ends_session [where user_question = "''Exit''" and e = count_env
      and inputs = "[''How many patients are there?'']" and h = full_history and t = "[]"]
    quit_ends_session [where user_question = "[]" and e = count_env
      and inputs = "[''quit'']" and h = "[]" and t = "[]"] q b
  show ?thesis by blast
qed

section \<open>The synthesis prompt\<close>

lemma render_messages_lines:
  "render_messages h = Inr ls \<Longrightarrow>
   ls = map (\<lambda>msg. role msg @ '': '' @ hd (parts msg)) h \<and> (\<forall>msg \<in> set h. parts msg \<noteq> [])"
  by (induction h arbitrary: ls)
     (auto simp: render_message_def split: sum.splits list.splits)

lemma history_str_lines:
  assumes "history_str h = Inr hs"
  shows "hs = join ''\<newline>'' (map (\<lambda>msg. role msg @ '': '' @ hd (parts msg)) h)"
proof -
  from assms obtain ls where "render_messages h = Inr ls" and "hs = join ''\<newline>'' ls"
    by (auto simp: history_str_def split: sum.splits)
  with render_messages_lines [of h ls] show ?thesis
    by simp
qed

lemma sql_prompt_head_words:
  \<open>contains ''You are a Text-to-SQL expert.'' sql_prompt_head\<close>
  \<open>contains ''You must only output the SQL query and nothing else.'' sql_prompt_head\<close>
  by (simp_all add: sql_prompt_head_def)

lemma sql_prompt_rules_words:
  \<open>contains ''Your default join MUST be a `LEFT JOIN` from `Demography` to `AdverseEvents`.'' sql_prompt_rules\<close>
  \<open>contains ''You MUST use `dm` for `Demography` and `ae` for `AdverseEvents`.'' sql_prompt_rules\<close>
  by (simp_all add: sql_prompt_rules_def)

lemma web_sql_prompt_words:
  \<open>contains ''You are a Text-to-SQL expert.'' web_sql_prompt_head\<close>
  \<open>contains ''You must only output the SQL query and nothing else.'' web_sql_prompt_head\<close>
  \<open>contains ''You MUST use the table aliases `dm` for the demography table, `ae` for the adverse events table, and `vs` for the vitals table.'' web_sql_prompt_rules\<close>
  by (simp_all add: web_sql_prompt_head_def web_sql_prompt_rules_def)

text \<open>
  C8, as stated, in the web variant.  \<^verbatim>\<open>get_sql_from_llm\<close> of \<^verbatim>\<open>streamlit_app.py\<close> takes
  the question and the schema only.  The prompt it sends has no section for the
  conversation, none of the lines of the transcript (which always starts with the
  greeting of line 91), and no join convention.
\<close>

theorem web_prompt_without_history:
  \<open>snd (get_sql_from_llm count_env ''How many of them are older than 60?''
          (join ''\<newline>'' demo_tables) [])
     = [LLMCall (web_sql_prompt (join ''\<newline>'' demo_tables)
                   ''How many of them are older than 60?'')]
   \<and> \<not> contains ''Conversation History''
         (web_sql_prompt (join ''\<newline>'' demo_tables) ''How many of them are older than 60?'')
   \<and> \<not> contains ''assistant: Hello! I am an AI clinical data assistant. How can I help you?''
         (web_sql_prompt (join ''\<newline>'' demo_tables) ''How many of them are older than 60?'')
   \<and> \<not> contains ''LEFT JOIN''
         (web_sql_prompt (join ''\<newline>'' demo_tables) ''How many of them are older than 60?'')\<close>
proof (intro conjI)
  show \<open>snd (get_sql_from_llm count_env ''How many of them are older than 60?''
          (join ''\<newline>'' demo_tables) [])
     = [LLMCall (web_sql_prompt (join ''\<newline>'' demo_tables)
                   ''How many of them are older than 60?'')]\<close>
    by (simp add: get_sql_from_llm_def llm_def split: sum.splits)
  show \<open>\<not> contains ''Conversation History''
         (web_sql_prompt (join ''\<newline>'' demo_tables) ''How many of them are older than 60?'')\<close>
    by (simp add: web_sql_prompt_def web_sql_prompt_head_def web_sql_prompt_rules_def
        web_sql_prompt_tail_def demo_tables_def)
  show \<open>\<not> contains ''assistant: Hello! I am an AI clinical data assistant. How can I help you?''
         (web_sql_prompt (join ''\<newline>'' demo_tables) ''How many of them are older than 60?'')\<close>
    by (simp add: web_sql_prompt_def web_sql_prompt_head_def web_sql_prompt_rules_def
        web_sql_prompt_tail_def demo_tables_def)
  show \<open>\<not> contains ''LEFT JOIN''
         (web_sql_prompt (join ''\<newline>'' demo_tables) ''How many of them are older than 60?'')\<close>
    by (simp add: web_sql_prompt_def web_sql_prompt_head_def web_sql_prompt_rules_def
        web_sql_prompt_tail_def demo_tables_def)
qed

text \<open>
  C8, amended.  A synthesis sends exactly one prompt.  In the interactive variant the
  prompt is, in this order: the preamble (Text-to-SQL expert, output only the SQL
  query), the schema, the join and alias conventions, the history with one line
  \<open>role: text\<close> per entry, and the question.  In the web variant the prompt is, in this
  order: the same preamble, the schema, the alias convention, and the question; it has
  no join convention and no history.
\<close>

theorem synthesis_prompt_layout:
  \<open>(history_str chat_history = Inr hs \<longrightarrow>
      snd (backend_get_sql_from_llm e user_question schema chat_history t)
        = t @ [LLMCall (sql_prompt_head @ schema @ sql_prompt_rules @ hs @ sql_prompt_question
                        @ user_question @ sql_prompt_tail)]
      \<and> hs = join ''\<newline>'' (map (\<lambda>msg. role msg @ '': '' @ hd (parts msg)) chat_history))
   \<and> snd (get_sql_from_llm e user_question schema t)
        = t @ [LLMCall (web_sql_prompt_head @ schema @ web_sql_prompt_rules @ user_question
                        @ web_sql_prompt_tail)]
   \<and> contains ''You are a Text-to-SQL expert.'' sql_prompt_head
   \<and> contains ''You must only output the SQL query and nothing else.'' sql_prompt_head
   \<and> contains ''Your default join MUST be a `LEFT JOIN` from `Demography` to `AdverseEvents`.''
        sql_prompt_rules
   \<and> contains ''You MUST use `dm` for `Demography` and `ae` for `AdverseEvents`.''
        sql_prompt_rules
   \<and> contains ''You are a Text-to-SQL expert.'' web_sql_prompt_head
   \<and> contains ''You must only output the SQL query and nothing else.'' web_sql_prompt_head
   \<and> contains ''You MUST use the table aliases `dm` for the demography table, `ae` for the adverse events table, and `vs` for the vitals table.''
        web_sql_prompt_rules\<close>
proof (intro conjI impI)
  assume hs: "history_str chat_history = Inr hs"
  then show "snd (backend_get_sql_from_llm e user_question schema chat_history t)
        = t @ [LLMCall (sql_prompt_head @ schema @ sql_prompt_rules @ hs @ sql_prompt_question
                        @ user_question @ sql_prompt_tail)]"
    by (simp add: backend_get_sql_from_llm_def llm_def sql_prompt_def split: sum.splits)
  from hs show "hs = join ''\<newline>'' (map (\<lambda>msg. role msg @ '': '' @ hd (parts msg)) chat_history)"
    by (rule history_str_lines)
next
  show "snd (get_sql_from_llm e user_question schema t)
        = t @ [LLMCall (web_sql_prompt_head @ schema @ web_sql_prompt_rules @ user_question
                        @ web_sql_prompt_tail)]"
    by (simp add: get_sql_from_llm_def llm_def web_sql_prompt_def split: sum.splits)
qed (rule sql_prompt_head_words sql_prompt_rules_words web_sql_prompt_words)+

theorem synthesis_prompt_layout_witness:
  \<open>history_str full_history = Inr full_history_lines
   \<and> snd (backend_get_sql_from_llm count_env ''question 6'' (join ''\<newline>'' demo_tables)
            full_history [CatalogQuery])
      = [CatalogQuery,
         LLMCall (sql_prompt_head @ join ''\<newline>'' demo_tables @ sql_prompt_rules
                  @ full_history_lines @ sql_prompt_question @ ''question 6'' @ sql_prompt_tail)]
   \<and> full_history_lines
      = join ''\<newline>'' (map (\<lambda>msg. role msg @ '': '' @ hd (parts msg)) full_history)\<close>
proof -
  have hs: "history_str full_history = Inr full_history_lines"
    by (simp add: full_history_str full_history_lines_def)
  from synthesis_prompt_layout [where chat_history = full_history and hs = full_history_lines
      and e = count_env and user_question = "''question 6''"
      and schema = "join ''\<newline>'' demo_tables" and t = "[CatalogQuery]"] hs
  show ?thesis by simp
qed

end
